theory Spec2Isabelle
  imports
    Main
    "HOL-Library.Char_ord"
    "HOL-Library.List_Lexorder"
    "HOL-Library.Product_Lexorder"
    "HOL-Library.Sublist"
    "HOL-Library.Multiset"
begin

section \<open>Python values used by \<open>app/routes.py\<close>\<close>

text \<open>
  A Python \<open>str\<close> is a \<^typ>\<open>string\<close>, one \<^typ>\<open>char\<close> per code point; the model covers
  the ASCII range, where \<open>str.upper\<close> works character by character and only moves
  \<open>a\<close>..\<open>z\<close>. Exceptions are values: every function that can raise returns
  \<open>exn + 'a\<close>, with \<open>Inl\<close> the exception raised. Only classes derived from
  \<open>Exception\<close> occur, which is what \<open>except Exception\<close> catches.
\<close>

datatype exn =
    ValueError string
  | IndexError string
  | KeyError string
  | UnboundLocalError string
  | Exception string

text \<open>\<open>str(e)\<close>: the message; for a \<open>KeyError\<close> the \<open>repr\<close> of the missing key.\<close>

fun str_exn :: "exn \<Rightarrow> string" where
  "str_exn (ValueError m) = m"
| "str_exn (IndexError m) = m"
| "str_exn (KeyError k) = [CHR 0x27] @ k @ [CHR 0x27]"
| "str_exn (UnboundLocalError m) = m"
| "str_exn (Exception m) = m"

text \<open>\<open>isinstance(e, ValueError)\<close>, the test of \<open>except ValueError\<close>.\<close>

fun is_ValueError :: "exn \<Rightarrow> bool" where
  "is_ValueError (ValueError m) = True"
| "is_ValueError e = False"

subsection \<open>\<open>str.upper\<close>, \<open>str.split\<close>, \<open>str.startswith\<close>, \<open>in\<close>\<close>

definition upper_char :: "char \<Rightarrow> char" where
  "upper_char c =
     (case map_of (zip ''abcdefghijklmnopqrstuvwxyz'' ''ABCDEFGHIJKLMNOPQRSTUVWXYZ'') c of
        None \<Rightarrow> c
      | Some d \<Rightarrow> d)"

definition upper :: "string \<Rightarrow> string" where
  "upper s = map upper_char s"

text \<open>
  \<open>str.isspace\<close> on one ASCII character: tab, line feed, vertical tab, form feed,
  carriage return, the four separators \<open>0x1C\<close>..\<open>0x1F\<close> and the space.
\<close>

definition isspace :: "char \<Rightarrow> bool" where
  "isspace c \<longleftrightarrow>
     c \<in> set [CHR 0x09, CHR 0x0A, CHR 0x0B, CHR 0x0C, CHR 0x0D,
              CHR 0x1C, CHR 0x1D, CHR 0x1E, CHR 0x1F, CHR 0x20]"

text \<open>
  \<open>s.split()\<close> with no separator: the maximal runs of characters that are not
  whitespace, in order; no empty token is ever produced.
\<close>

function str_split :: "string \<Rightarrow> string list" where
  "str_split s =
     (case dropWhile isspace s of
        [] \<Rightarrow> []
      | c # cs \<Rightarrow>
          takeWhile (\<lambda>x. \<not> isspace x) (c # cs)
            # str_split (dropWhile (\<lambda>x. \<not> isspace x) (c # cs)))"
  by pat_completeness auto
termination
proof (relation "measure length")
  show "wf (measure length)" by simp
next
  fix s :: string and c cs
  assume a: "dropWhile isspace s = c # cs"
  then have nsp: "\<not> isspace c"
    by (metis hd_dropWhile list.sel(1) list.distinct(1))
  have "length (dropWhile (\<lambda>x. \<not> isspace x) (c # cs)) \<le> length cs"
    using nsp by (simp add: length_dropWhile_le)
  also have "length cs < length (c # cs)" by simp
  also have "length (c # cs) \<le> length s"
    using a length_dropWhile_le [of isspace s] by simp
  finally show "(dropWhile (\<lambda>x. \<not> isspace x) (c # cs), s) \<in> measure length"
    by simp
qed

declare str_split.simps [simp del]

text \<open>\<open>s.startswith(p)\<close>.\<close>

definition startswith :: "string \<Rightarrow> string \<Rightarrow> bool" where
  "startswith s p \<longleftrightarrow> take (length p) s = p"

text \<open>\<open>q in s\<close> on two strings: \<open>q\<close> occurs in \<open>s\<close> as a contiguous substring.\<close>

fun str_in :: "string \<Rightarrow> string \<Rightarrow> bool" where
  "str_in q [] \<longleftrightarrow> q = []"
| "str_in q (c # cs) \<longleftrightarrow> startswith (c # cs) q \<or> str_in q cs"

subsection \<open>\<open>int(s)\<close> on a string\<close>

fun digit_of :: "char \<Rightarrow> nat option" where
  "digit_of c =
     map_of (zip ''0123456789'' [0, 1, 2, 3, 4, 5, 6, 7, 8, 9]) c"

text \<open>
  The digits after the first one: each further character is a digit, or one
  underscore followed by a digit.
\<close>

fun more_digits :: "nat \<Rightarrow> string \<Rightarrow> nat option" where
  "more_digits acc [] = Some acc"
| "more_digits acc [c] =
     (case digit_of c of None \<Rightarrow> None | Some v \<Rightarrow> Some (10 * acc + v))"
| "more_digits acc (c # d # ds) =
     (if c = CHR ''_''
      then (case digit_of d of
              None \<Rightarrow> None
            | Some v \<Rightarrow> more_digits (10 * acc + v) ds)
      else (case digit_of c of
              None \<Rightarrow> None
            | Some v \<Rightarrow> more_digits (10 * acc + v) (d # ds)))"

text \<open>The whitespace \<open>int\<close> strips from both ends of an ASCII string.\<close>

definition int_space :: "char \<Rightarrow> bool" where
  "int_space c \<longleftrightarrow>
     c \<in> set [CHR 0x09, CHR 0x0A, CHR 0x0B, CHR 0x0C, CHR 0x0D, CHR 0x20]"

definition int_strip :: "string \<Rightarrow> string" where
  "int_strip s = rev (dropWhile int_space (rev (dropWhile int_space s)))"

definition unsigned_of :: "string \<Rightarrow> nat option" where
  "unsigned_of s =
     (case s of
        [] \<Rightarrow> None
      | c # cs \<Rightarrow> (case digit_of c of None \<Rightarrow> None | Some v \<Rightarrow> more_digits v cs))"

text \<open>
  \<open>int(s)\<close> in base 10: surrounding whitespace, an optional sign, then decimal
  digits that single underscores may separate. Anything else is a \<open>ValueError\<close>.
\<close>

definition int_of_str :: "string \<Rightarrow> exn + int" where
  "int_of_str s =
     (let t = int_strip s;
          r = (case t of
                 [] \<Rightarrow> None
               | c # cs \<Rightarrow>
                   if c = CHR ''-'' then map_option (\<lambda>n. - int n) (unsigned_of cs)
                   else if c = CHR ''+'' then map_option int (unsigned_of cs)
                   else map_option int (unsigned_of t))
      in case r of
           None \<Rightarrow> Inl (ValueError (''invalid literal for int() with base 10: '' @ s))
         | Some v \<Rightarrow> Inr v)"

subsection \<open>\<open>datetime.strptime(s, '%Y-%m-%d')\<close>\<close>

text \<open>
  \<open>strptime\<close> compiles the format to the regular expression
  \<open>(?P<Y>\d\d\d\d)-(?P<m>1[0-2]|0[1-9]|[1-9])-(?P<d>3[0-1]|[1-2]\d|0[1-9]|[1-9]| [1-9])\<close>,
  matches it at the start of the string, refuses unconverted data after the match,
  and then builds the date, which checks the year and the day of the month.
  Each group is modelled by the list of its alternatives that match, in the order
  the backtracking matcher tries them, each with the rest of the string.
\<close>

definition group_Y :: "string \<Rightarrow> (nat \<times> string) list" where
  "group_Y s =
     (case s of
        a # b # c # d # rest \<Rightarrow>
          (case (digit_of a, digit_of b, digit_of c, digit_of d) of
             (Some x, Some y, Some z, Some w) \<Rightarrow> [(1000 * x + 100 * y + 10 * z + w, rest)]
           | _ \<Rightarrow> [])
      | _ \<Rightarrow> [])"

definition two_chars :: "(nat \<Rightarrow> bool) \<Rightarrow> (nat \<Rightarrow> bool) \<Rightarrow> string \<Rightarrow> (nat \<times> string) list" where
  "two_chars p q s =
     (case s of
        a # b # rest \<Rightarrow>
          (case (digit_of a, digit_of b) of
             (Some x, Some y) \<Rightarrow> if p x \<and> q y then [(10 * x + y, rest)] else []
           | _ \<Rightarrow> [])
      | _ \<Rightarrow> [])"

definition one_char :: "string \<Rightarrow> (nat \<times> string) list" where
  "one_char s =
     (case s of
        a # rest \<Rightarrow>
          (case digit_of a of Some x \<Rightarrow> if 1 \<le> x then [(x, rest)] else [] | None \<Rightarrow> [])
      | _ \<Rightarrow> [])"

definition group_m :: "string \<Rightarrow> (nat \<times> string) list" where
  "group_m s =
     two_chars (\<lambda>x. x = 1) (\<lambda>y. y \<le> 2) s
     @ two_chars (\<lambda>x. x = 0) (\<lambda>y. 1 \<le> y) s
     @ one_char s"

definition group_d :: "string \<Rightarrow> (nat \<times> string) list" where
  "group_d s =
     two_chars (\<lambda>x. x = 3) (\<lambda>y. y \<le> 1) s
     @ two_chars (\<lambda>x. 1 \<le> x \<and> x \<le> 2) (\<lambda>y. True) s
     @ two_chars (\<lambda>x. x = 0) (\<lambda>y. 1 \<le> y) s
     @ one_char s
     @ (case s of c # rest \<Rightarrow> if c = CHR '' '' then one_char rest else [] | _ \<Rightarrow> [])"

definition dash :: "string \<Rightarrow> string list" where
  "dash s = (case s of c # rest \<Rightarrow> if c = CHR ''-'' then [rest] else [] | _ \<Rightarrow> [])"

text \<open>All matches of the whole expression, in backtracking order; the first is the match.\<close>

definition regex_Ymd :: "string \<Rightarrow> ((nat \<times> nat \<times> nat) \<times> string) list" where
  "regex_Ymd s =
     concat (map (\<lambda>(y, r1).
       concat (map (\<lambda>r2.
         concat (map (\<lambda>(m, r3).
           concat (map (\<lambda>r4.
             map (\<lambda>(d, r5). ((y, m, d), r5)) (group_d r4))
           (dash r3)))
         (group_m r2)))
       (dash r1)))
     (group_Y s))"

definition is_leap :: "nat \<Rightarrow> bool" where
  "is_leap y = (if y mod 100 = 0 then y mod 400 = 0 else y mod 4 = 0)"

definition days_in_month :: "nat \<Rightarrow> nat \<Rightarrow> nat" where
  "days_in_month y m =
     (if m = 2 then (if is_leap y then 29 else 28)
      else if m \<in> set [4, 6, 9, 11] then 30
      else 31)"

definition strptime :: "string \<Rightarrow> exn + (nat \<times> nat \<times> nat)" where
  "strptime s =
     (case regex_Ymd s of
        [] \<Rightarrow> Inl (ValueError (''time data does not match format: '' @ s))
      | ((y, m, d), rest) # _ \<Rightarrow>
          if rest \<noteq> [] then Inl (ValueError (''unconverted data remains: '' @ rest))
          else if y < 1 then Inl (ValueError ''year 0 is out of range'')
          else if days_in_month y m < d then Inl (ValueError ''day is out of range for month'')
          else Inr (y, m, d))"

section \<open>The reference catalog and the request\<close>

text \<open>
  \<open>app.utils.tickers\<close> is outside the sources at hand, so its two tables are parameters
  of every function below: \<open>TICKERS\<close>, a list of dictionaries read at the keys
  \<open>'symbol'\<close> and \<open>'name'\<close>, and \<open>TICKER_DICT\<close>, a dictionary from symbol to name.
  \<open>request.form\<close> and \<open>request.args\<close> are dictionaries from field name to value.
\<close>

type_synonym entry = "string \<rightharpoonup> string"

type_synonym fields = "string \<rightharpoonup> string"

text \<open>\<open>d[k]\<close>: a missing key raises \<open>KeyError\<close>.\<close>

definition getitem :: "entry \<Rightarrow> string \<Rightarrow> exn + string" where
  "getitem d k = (case d k of None \<Rightarrow> Inl (KeyError k) | Some v \<Rightarrow> Inr v)"

text \<open>\<open>d.get(k, default)\<close> with a string default.\<close>

definition get_default :: "fields \<Rightarrow> string \<Rightarrow> string \<Rightarrow> string" where
  "get_default d k dflt = (case d k of None \<Rightarrow> dflt | Some v \<Rightarrow> v)"

section \<open>\<open>search_ticker\<close>\<close>

record result =
  symbol :: string
  name :: string
  source :: string

text \<open>Lines 39 to 45: the exact match, looked up in \<open>TICKER_DICT\<close>.\<close>

definition exact_match :: "(string \<rightharpoonup> string) \<Rightarrow> string \<Rightarrow> result list" where
  "exact_match TICKER_DICT query =
     (case TICKER_DICT query of
        Some n \<Rightarrow> [\<lparr>symbol = query, name = n, source = ''predefined''\<rparr>]
      | None \<Rightarrow> [])"

text \<open>
  Lines 52 to 54, the condition of the comprehension on one entry. \<open>or\<close> and \<open>and\<close>
  evaluate from the left and stop early, so \<open>ticker['name']\<close> is read only when the
  query is not in the symbol.
\<close>

definition partial_cond :: "string \<Rightarrow> entry \<Rightarrow> exn + bool" where
  "partial_cond query ticker =
     (case getitem ticker ''symbol'' of
        Inl e \<Rightarrow> Inl e
      | Inr s \<Rightarrow>
          (case (if str_in query (upper s) then Inr True
                 else (case getitem ticker ''name'' of
                         Inl e \<Rightarrow> Inl e
                       | Inr n \<Rightarrow> Inr (str_in query (upper n)))) of
             Inl e \<Rightarrow> Inl e
           | Inr b \<Rightarrow> Inr (b \<and> s \<noteq> query)))"

text \<open>Line 50, the dictionary built for an entry that passes the condition.\<close>

definition partial_item :: "entry \<Rightarrow> exn + result" where
  "partial_item ticker =
     (case getitem ticker ''symbol'' of
        Inl e \<Rightarrow> Inl e
      | Inr s \<Rightarrow>
          (case getitem ticker ''name'' of
             Inl e \<Rightarrow> Inl e
           | Inr n \<Rightarrow> Inr \<lparr>symbol = s, name = n, source = ''predefined''\<rparr>))"

text \<open>Lines 49 to 55: the comprehension over \<open>TICKERS\<close>, entry by entry, in order.\<close>

fun partial_matches :: "entry list \<Rightarrow> string \<Rightarrow> exn + result list" where
  "partial_matches [] query = Inr []"
| "partial_matches (ticker # rest) query =
     (case partial_cond query ticker of
        Inl e \<Rightarrow> Inl e
      | Inr True \<Rightarrow>
          (case partial_item ticker of
             Inl e \<Rightarrow> Inl e
           | Inr r \<Rightarrow>
               (case partial_matches rest query of
                  Inl e \<Rightarrow> Inl e
                | Inr rs \<Rightarrow> Inr (r # rs)))
      | Inr False \<Rightarrow> partial_matches rest query)"

text \<open>Lines 60 to 64: the key of the sort.\<close>

definition rank :: "string \<Rightarrow> result \<Rightarrow> bool \<times> nat \<times> string" where
  "rank query x = (symbol x \<noteq> query, length (symbol x), symbol x)"

text \<open>
  Lines 35 to 66, the body of the \<open>try\<close>. \<open>list.sort\<close> is stable, as is
  \<^const>\<open>sort_key\<close>.
\<close>

definition search_body ::
  "entry list \<Rightarrow> (string \<rightharpoonup> string) \<Rightarrow> string \<Rightarrow> exn + result list" where
  "search_body TICKERS TICKER_DICT query =
     (let search_results = exact_match TICKER_DICT query in
      case (if length search_results < 5
            then (case partial_matches TICKERS query of
                    Inl e \<Rightarrow> Inl e
                  | Inr pm \<Rightarrow>
                      Inr (search_results @ take (5 - length search_results) pm))
            else Inr search_results) of
        Inl e \<Rightarrow> Inl e
      | Inr rs \<Rightarrow> Inr (take 5 (sort_key (rank query) rs)))"

text \<open>
  The route: the empty query returns at once, and \<open>except Exception\<close> turns whatever
  the body raises into the empty list. \<open>Inr\<close> is the JSON array of the response.
\<close>

definition search_ticker ::
  "entry list \<Rightarrow> (string \<rightharpoonup> string) \<Rightarrow> fields \<Rightarrow> exn + result list" where
  "search_ticker TICKERS TICKER_DICT args =
     (let query = upper (get_default args ''query'' []) in
      if query = [] \<or> length query < 1 then Inr []
      else (case search_body TICKERS TICKER_DICT query of
              Inl e \<Rightarrow> Inr []
            | Inr rs \<Rightarrow> Inr rs))"

section \<open>\<open>analyze\<close>\<close>

record response =
  body :: string
  status :: nat

text \<open>
  Line 75: \<open>request.form.get('ticker', '').split()[0].upper()\<close>. Indexing the empty
  list raises \<open>IndexError\<close>, before \<open>ticker_input\<close> is bound.
\<close>

definition first_token :: "fields \<Rightarrow> exn + string" where
  "first_token form =
     (case str_split (get_default form ''ticker'' []) of
        [] \<Rightarrow> Inl (IndexError ''list index out of range'')
      | tok # _ \<Rightarrow> Inr (upper tok))"

text \<open>Line 86: the symbols of \<open>TICKERS\<close> that start with the input, in order.\<close>

fun matching_tickers :: "entry list \<Rightarrow> string \<Rightarrow> exn + string list" where
  "matching_tickers [] ticker_input = Inr []"
| "matching_tickers (t # rest) ticker_input =
     (case getitem t ''symbol'' of
        Inl e \<Rightarrow> Inl e
      | Inr s \<Rightarrow>
          (case matching_tickers rest ticker_input of
             Inl e \<Rightarrow> Inl e
           | Inr ms \<Rightarrow> Inr (if startswith s ticker_input then s # ms else ms)))"

text \<open>Lines 82 to 88: the ticker handed to the analysis.\<close>

definition resolve ::
  "entry list \<Rightarrow> (string \<rightharpoonup> string) \<Rightarrow> string \<Rightarrow> exn + string" where
  "resolve TICKERS TICKER_DICT ticker_input =
     (case TICKER_DICT ticker_input of
        Some _ \<Rightarrow> Inr ticker_input
      | None \<Rightarrow>
          (case matching_tickers TICKERS ticker_input of
             Inl e \<Rightarrow> Inl e
           | Inr ms \<Rightarrow> Inr (case ms of [] \<Rightarrow> ticker_input | m # _ \<Rightarrow> m)))"

text \<open>
  Lines 91 to 100. \<open>form.get('end_date')\<close> is \<open>None\<close> for an absent field, and both
  \<open>None\<close> and the empty string are false in \<open>if end_date\<close>. The string itself, not the
  parsed date, goes on to the analysis.
\<close>

definition date_stage :: "fields \<Rightarrow> exn + string option" where
  "date_stage form =
     (case form ''end_date'' of
        None \<Rightarrow> Inr None
      | Some end_date \<Rightarrow>
          if end_date \<noteq> []
          then (case strptime end_date of
                  Inl e \<Rightarrow>
                    if is_ValueError e
                    then Inl (ValueError ''Invalid date format. Please use YYYY-MM-DD format'')
                    else Inl e
                | Inr _ \<Rightarrow> Inr (Some end_date))
          else Inr None)"

text \<open>
  Lines 102 to 108. The default \<open>365\<close> is an integer, which \<open>int\<close> returns as it is.
  The range check raises inside the \<open>try\<close>, so its \<open>ValueError\<close> is caught by the same
  \<open>except ValueError\<close> as a failed parse and replaced by the same message.
\<close>

definition lookback_stage :: "fields \<Rightarrow> exn + int" where
  "lookback_stage form =
     (case (case (case form ''lookback_days'' of
                    None \<Rightarrow> Inr 365
                  | Some s \<Rightarrow> int_of_str s) of
              Inl e \<Rightarrow> Inl e
            | Inr lookback_days \<Rightarrow>
                if lookback_days < 30 \<or> lookback_days > 1825
                then Inl (ValueError ''Lookback days must be between 30 and 1825'')
                else Inr lookback_days) of
        Inl e \<Rightarrow>
          if is_ValueError e then Inl (ValueError ''Invalid lookback days value'') else Inl e
      | Inr lookback_days \<Rightarrow> Inr lookback_days)"

text \<open>Lines 110 to 116, the same shape with default \<open>180\<close> and range 30 to 365.\<close>

definition crossover_stage :: "fields \<Rightarrow> exn + int" where
  "crossover_stage form =
     (case (case (case form ''crossover_days'' of
                    None \<Rightarrow> Inr 180
                  | Some s \<Rightarrow> int_of_str s) of
              Inl e \<Rightarrow> Inl e
            | Inr crossover_days \<Rightarrow>
                if crossover_days < 30 \<or> crossover_days > 365
                then Inl (ValueError ''Crossover days must be between 30 and 365'')
                else Inr crossover_days) of
        Inl e \<Rightarrow>
          if is_ValueError e then Inl (ValueError ''Invalid crossover days value'') else Inl e
      | Inr crossover_days \<Rightarrow> Inr crossover_days)"

text \<open>
  Lines 119 to 141. The analysis engine is outside the sources: \<open>create_combined_analysis\<close>
  and the figure's \<open>to_html\<close> are parameters that return a value or raise. Whatever they
  raise is wrapped in a \<open>ValueError\<close>.
\<close>

definition perform_analysis ::
  "(string \<Rightarrow> string option \<Rightarrow> int \<Rightarrow> int \<Rightarrow> exn + 'fig) \<Rightarrow> ('fig \<Rightarrow> exn + string)
     \<Rightarrow> string \<Rightarrow> string option \<Rightarrow> int \<Rightarrow> int \<Rightarrow> exn + response" where
  "perform_analysis create_combined_analysis to_html ticker end_date lookback_days crossover_days =
     (case (case create_combined_analysis ticker end_date lookback_days crossover_days of
              Inl e \<Rightarrow> Inl e
            | Inr fig \<Rightarrow>
                (case to_html fig of
                   Inl e \<Rightarrow> Inl e
                 | Inr html_content \<Rightarrow> Inr \<lparr>body = html_content, status = 200\<rparr>)) of
        Inl analysis_error \<Rightarrow> Inl (ValueError (''Analysis failed: '' @ str_exn analysis_error))
      | Inr r \<Rightarrow> Inr r)"

text \<open>Lines 78 to 141: the \<open>try\<close> block from the point where \<open>ticker_input\<close> is bound.\<close>

definition analyze_try ::
  "entry list \<Rightarrow> (string \<rightharpoonup> string)
     \<Rightarrow> (string \<Rightarrow> string option \<Rightarrow> int \<Rightarrow> int \<Rightarrow> exn + 'fig) \<Rightarrow> ('fig \<Rightarrow> exn + string)
     \<Rightarrow> fields \<Rightarrow> string \<Rightarrow> exn + response" where
  "analyze_try TICKERS TICKER_DICT create_combined_analysis to_html form ticker_input =
     (if ticker_input = [] then Inl (ValueError ''Ticker symbol is required'')
      else
        case resolve TICKERS TICKER_DICT ticker_input of
          Inl e \<Rightarrow> Inl e
        | Inr ticker \<Rightarrow>
            (case date_stage form of
               Inl e \<Rightarrow> Inl e
             | Inr end_date \<Rightarrow>
                 (case lookback_stage form of
                    Inl e \<Rightarrow> Inl e
                  | Inr lookback_days \<Rightarrow>
                      (case crossover_stage form of
                         Inl e \<Rightarrow> Inl e
                       | Inr crossover_days \<Rightarrow>
                           perform_analysis create_combined_analysis to_html
                             ticker end_date lookback_days crossover_days))))"

text \<open>Line 144 and lines 146 to 165: the message and the page around it.\<close>

definition error_msg :: "string \<Rightarrow> exn \<Rightarrow> string" where
  "error_msg ticker_input e = ''Error analyzing '' @ ticker_input @ '': '' @ str_exn e"

definition html_lines :: "string list \<Rightarrow> string" where
  "html_lines ls = concat (map (\<lambda>l. l @ [CHR 0x0A]) ls)"

definition error_html :: "string \<Rightarrow> string" where
  "error_html msg =
     [CHR 0x0A]
     @ html_lines
        [''        <html>'',
         ''            <head>'',
         ''                <title>Error</title>'',
         ''                <style>'',
         ''                    body { font-family: Arial, sans-serif; padding: 2rem; }'',
         ''                    .error { color: #dc3545; padding: 1rem; background-color: #f8d7da; '',
         ''                             border: 1px solid #f5c6cb; border-radius: 3px; }'',
         ''                    .back-link { margin-top: 1rem; display: block; }'',
         ''                </style>'',
         ''            </head>'',
         ''            <body>'',
         ''                <div class='' @ [CHR 0x22] @ ''error'' @ [CHR 0x22] @ ''>'',
         ''                    <h2>Analysis Error</h2>'']
     @ ''                    <p>'' @ msg @ ''</p>'' @ [CHR 0x0A]
     @ html_lines
        [''                </div>'',
         ''                <a href='' @ [CHR 0x22] @ ''javascript:window.close();'' @ [CHR 0x22] @ '' class='' @ [CHR 0x22] @ ''back-link'' @ [CHR 0x22] @ ''>Close Window</a>'',
         ''            </body>'',
         ''        </html>'']
     @ ''        ''"

text \<open>
  Lines 143 to 166, the \<open>except Exception\<close> branch. It reads \<open>ticker_input\<close>; when the
  exception came from line 75 the name is not bound yet and the read raises
  \<open>UnboundLocalError\<close>, which nothing catches.
\<close>

definition except_branch :: "string option \<Rightarrow> exn \<Rightarrow> exn + response" where
  "except_branch ticker_input e =
     (case ticker_input of
        None \<Rightarrow>
          Inl (UnboundLocalError
                 ''cannot access local variable ticker_input where it is not associated with a value'')
      | Some t \<Rightarrow> Inr \<lparr>body = error_html (error_msg t e), status = 500\<rparr>)"

text \<open>The route: \<open>Inr\<close> is the response returned, \<open>Inl\<close> an exception that leaves the handler.\<close>

definition analyze ::
  "entry list \<Rightarrow> (string \<rightharpoonup> string)
     \<Rightarrow> (string \<Rightarrow> string option \<Rightarrow> int \<Rightarrow> int \<Rightarrow> exn + 'fig) \<Rightarrow> ('fig \<Rightarrow> exn + string)
     \<Rightarrow> fields \<Rightarrow> exn + response" where
  "analyze TICKERS TICKER_DICT create_combined_analysis to_html form =
     (case first_token form of
        Inl e \<Rightarrow> except_branch None e
      | Inr ticker_input \<Rightarrow>
          (case analyze_try TICKERS TICKER_DICT create_combined_analysis to_html
                  form ticker_input of
             Inl e \<Rightarrow> except_branch (Some ticker_input) e
           | Inr r \<Rightarrow> Inr r))"

section \<open>Notions used in the statements\<close>

text \<open>The symbols of the catalog, in catalog order.\<close>

definition symbols_of :: "entry list \<Rightarrow> string list" where
  "symbols_of TICKERS = List.map_filter (\<lambda>t. t ''symbol'') TICKERS"

text \<open>A small catalog for the examples.\<close>

definition sample_TICKERS :: "entry list" where
  "sample_TICKERS =
     [[''symbol'' \<mapsto> ''GOOGL'', ''name'' \<mapsto> ''Alphabet Inc. Class A''],
      [''symbol'' \<mapsto> ''GOOG'', ''name'' \<mapsto> ''Alphabet Inc. Class C''],
      [''symbol'' \<mapsto> ''AAPL'', ''name'' \<mapsto> ''Apple Inc.'']]"

definition sample_TICKER_DICT :: "string \<rightharpoonup> string" where
  "sample_TICKER_DICT =
     [''GOOGL'' \<mapsto> ''Alphabet Inc. Class A'',
      ''GOOG'' \<mapsto> ''Alphabet Inc. Class C'',
      ''AAPL'' \<mapsto> ''Apple Inc.'']"

text \<open>
  An entry is a partial match for a query when it carries a symbol and a name, the
  query is a contiguous part of the uppercased symbol or of the uppercased name, and
  the symbol is not the query itself.
\<close>

definition is_partial :: "string \<Rightarrow> entry \<Rightarrow> bool" where
  "is_partial query t =
     (case (t ''symbol'', t ''name'') of
        (Some s, Some n) \<Rightarrow> (sublist query (upper s) \<or> sublist query (upper n)) \<and> s \<noteq> query
      | _ \<Rightarrow> False)"

text \<open>The search result of a catalog entry that carries a symbol and a name.\<close>

definition to_result :: "entry \<Rightarrow> result" where
  "to_result t = \<lparr>symbol = the (t ''symbol''), name = the (t ''name''), source = ''predefined''\<rparr>"

text \<open>
  The order of the results in words: the result whose symbol is the query comes
  first; otherwise the shorter symbol comes first; symbols of one length are in
  lexicographic order of their characters.
\<close>

definition ranks_before :: "string \<Rightarrow> result \<Rightarrow> result \<Rightarrow> bool" where
  "ranks_before query a b \<longleftrightarrow>
     (symbol a = query \<and> symbol b \<noteq> query)
     \<or> ((symbol a = query) = (symbol b = query)
        \<and> (length (symbol a) < length (symbol b)
           \<or> (length (symbol a) = length (symbol b) \<and> symbol a \<le> symbol b)))"

section \<open>Facts about the string functions\<close>

lemma str_split_Nil_iff: "str_split s = [] \<longleftrightarrow> (\<forall>c \<in> set s. isspace c)"
proof (cases "dropWhile isspace s")
  case Nil
  have "str_split s = []"
    by (subst str_split.simps) (simp only: Nil list.case)
  with Nil show ?thesis by (simp add: dropWhile_eq_Nil_conv)
next
  case (Cons c cs)
  have "str_split s \<noteq> []"
    by (subst str_split.simps) (simp only: Cons list.case list.distinct not_False_eq_True)
  moreover have "\<not> (\<forall>c \<in> set s. isspace c)"
    using Cons dropWhile_eq_Nil_conv [of isspace s] by simp
  ultimately show ?thesis by simp
qed

lemma str_split_blank [simp]: "str_split [] = []"
  by (simp add: str_split_Nil_iff)

section \<open>The handler and the empty ticker\<close>

lemma analyze_try_success:
  assumes "analyze_try T D cca th form ti = Inr r"
  shows "\<exists>html. r = \<lparr>body = html, status = 200\<rparr>"
  using assms
  by (auto simp: analyze_try_def perform_analysis_def split: if_splits sum.splits)

lemma analyze_unbound:
  assumes "str_split (get_default form ''ticker'' []) = []"
  shows "analyze T D cca th form
         = Inl (UnboundLocalError
             ''cannot access local variable ticker_input where it is not associated with a value'')"
  using assms by (simp add: analyze_def first_token_def except_branch_def)

text \<open>
  C1. A request whose ticker field is empty or holds only whitespace should fail
  validation with the message \<open>Ticker symbol is required\<close> and be reported on the error
  page like any other validation failure. The code does not get there: line 75 raises
  \<open>IndexError\<close> on the empty token list, the \<open>except\<close> branch then reads the unbound
  \<open>ticker_input\<close>, and \<open>UnboundLocalError\<close> leaves the handler. The test of line 78
  is never reached with an empty value.
\<close>

theorem analyze_blank_ticker_raises:
  assumes "\<forall>c \<in> set (get_default form ''ticker'' []). isspace c"
  shows "analyze T D cca th form
         = Inl (UnboundLocalError
             ''cannot access local variable ticker_input where it is not associated with a value'')"
proof -
  have "str_split (get_default form ''ticker'' []) = []"
    using assms by (simp add: str_split_Nil_iff)
  then show ?thesis by (rule analyze_unbound)
qed

theorem analyze_blank_ticker_raises_witness:
  "analyze sample_TICKERS sample_TICKER_DICT
       (\<lambda>t d l c. (Inr () :: exn + unit)) (\<lambda>f. Inr ''<html></html>'')
       [''ticker'' \<mapsto> []]
     = Inl (UnboundLocalError
         ''cannot access local variable ticker_input where it is not associated with a value'')
   \<and> analyze sample_TICKERS sample_TICKER_DICT
       (\<lambda>t d l c. (Inr () :: exn + unit)) (\<lambda>f. Inr ''<html></html>'')
       [''ticker'' \<mapsto> ''   '']
     = Inl (UnboundLocalError
         ''cannot access local variable ticker_input where it is not associated with a value'')"
proof -
  have h1: "\<forall>c \<in> set (get_default [''ticker'' \<mapsto> []] ''ticker'' []). isspace c"
    by (simp add: get_default_def)
  have h2: "\<forall>c \<in> set (get_default [''ticker'' \<mapsto> ''   ''] ''ticker'' []). isspace c"
    by (simp add: get_default_def isspace_def)
  show ?thesis
    by (intro conjI)
      (rule analyze_blank_ticker_raises [OF h1], rule analyze_blank_ticker_raises [OF h2])
qed

text \<open>
  C2. Every failure of the pipeline should end in the styled error page with status
  500. A request without a ticker field is a failure that does not: no response is
  returned, the handler raises.
\<close>

theorem analyze_no_ticker_no_page:
  "\<not> (\<exists>r. analyze T D cca th Map.empty = Inr r)"
  by (simp add: analyze_unbound get_default_def)

text \<open>
  C10. When the ticker field holds at least one token, the handler always returns a
  response: the chart document with status 200, or the error page with status 500
  whose message names the uppercased first token. No exception leaves the handler.
\<close>

theorem analyze_total:
  assumes "str_split (get_default form ''ticker'' []) = tok # rest"
  shows "(\<exists>html. analyze T D cca th form = Inr \<lparr>body = html, status = 200\<rparr>)
       \<or> (\<exists>e. analyze T D cca th form
                = Inr \<lparr>body = error_html (error_msg (upper tok) e), status = 500\<rparr>)"
proof (cases "analyze_try T D cca th form (upper tok)")
  case (Inl e)
  then have "analyze T D cca th form
      = Inr \<lparr>body = error_html (error_msg (upper tok) e), status = 500\<rparr>"
    using assms by (simp add: analyze_def first_token_def except_branch_def)
  then show ?thesis by blast
next
  case (Inr r)
  then obtain html where "r = \<lparr>body = html, status = 200\<rparr>"
    using analyze_try_success by blast
  then have "analyze T D cca th form = Inr \<lparr>body = html, status = 200\<rparr>"
    using assms Inr by (simp add: analyze_def first_token_def)
  then show ?thesis by blast
qed

theorem analyze_total_witness:
  "str_split (get_default [''ticker'' \<mapsto> ''goog extra tokens''] ''ticker'' [])
     = ''goog'' # [''extra'', ''tokens'']
   \<and> ((\<exists>html. analyze [] Map.empty
                 (\<lambda>t d l c. (Inl (Exception ''no data'') :: exn + unit)) (\<lambda>f. Inr [])
                 [''ticker'' \<mapsto> ''goog extra tokens'']
               = Inr \<lparr>body = html, status = 200\<rparr>)
      \<or> (\<exists>e. analyze [] Map.empty
                 (\<lambda>t d l c. (Inl (Exception ''no data'') :: exn + unit)) (\<lambda>f. Inr [])
                 [''ticker'' \<mapsto> ''goog extra tokens'']
               = Inr \<lparr>body = error_html (error_msg (upper ''goog'') e), status = 500\<rparr>))"
proof -
  have h: "str_split (get_default [''ticker'' \<mapsto> ''goog extra tokens''] ''ticker'' [])
     = ''goog'' # [''extra'', ''tokens'']"
    by (simp add: get_default_def str_split.simps isspace_def)
  show ?thesis
    using h analyze_total [OF h] by blast
qed

section \<open>The validation stages\<close>

lemma int_of_str_error: "int_of_str s = Inl e \<Longrightarrow> is_ValueError e"
  by (auto simp: int_of_str_def Let_def split: option.splits)

lemma strptime_error: "strptime s = Inl e \<Longrightarrow> is_ValueError e"
  by (auto simp: strptime_def split: list.splits prod.splits if_splits)

lemma lookback_stage_eq:
  "lookback_stage form =
     (case form ''lookback_days'' of
        None \<Rightarrow> Inr 365
      | Some s \<Rightarrow>
          (case int_of_str s of
             Inl e \<Rightarrow> Inl (ValueError ''Invalid lookback days value'')
           | Inr v \<Rightarrow>
               if 30 \<le> v \<and> v \<le> 1825 then Inr v
               else Inl (ValueError ''Invalid lookback days value'')))"
  by (auto simp: lookback_stage_def int_of_str_error split: option.splits sum.splits)

lemma crossover_stage_eq:
  "crossover_stage form =
     (case form ''crossover_days'' of
        None \<Rightarrow> Inr 180
      | Some s \<Rightarrow>
          (case int_of_str s of
             Inl e \<Rightarrow> Inl (ValueError ''Invalid crossover days value'')
           | Inr v \<Rightarrow>
               if 30 \<le> v \<and> v \<le> 365 then Inr v
               else Inl (ValueError ''Invalid crossover days value'')))"
  by (auto simp: crossover_stage_def int_of_str_error split: option.splits sum.splits)

lemma date_stage_eq:
  "date_stage form =
     (case form ''end_date'' of
        None \<Rightarrow> Inr None
      | Some s \<Rightarrow>
          if s = [] then Inr None
          else (case strptime s of
                  Inl e \<Rightarrow> Inl (ValueError ''Invalid date format. Please use YYYY-MM-DD format'')
                | Inr d \<Rightarrow> Inr (Some s)))"
  by (auto simp: date_stage_def strptime_error split: option.splits sum.splits)

lemmas int_of_str_eval = int_of_str_def int_strip_def int_space_def unsigned_of_def

lemmas strptime_eval =
  strptime_def regex_Ymd_def group_Y_def group_m_def group_d_def dash_def
  two_chars_def one_char_def days_in_month_def is_leap_def

lemma int_of_str_empty: "\<exists>m. int_of_str [] = Inl (ValueError m)"
  by (simp add: int_of_str_def int_strip_def)

text \<open>
  C6. The lookback stage gives 365 for an absent field; for a supplied value it fails
  with \<open>Invalid lookback days value\<close> exactly when \<open>int\<close> fails or the number is below
  30 or above 1825, and otherwise gives the number. The crossover stage does the same
  with 180 and the range 30 to 365. At the boundaries: 29 and 1826 (29 and 366) are
  refused, 30 and 1825 (30 and 365) are accepted.
\<close>

theorem numeric_stages_inclusive:
  "lookback_stage form =
     (case form ''lookback_days'' of
        None \<Rightarrow> Inr 365
      | Some s \<Rightarrow>
          (case int_of_str s of
             Inl e \<Rightarrow> Inl (ValueError ''Invalid lookback days value'')
           | Inr v \<Rightarrow>
               if 30 \<le> v \<and> v \<le> 1825 then Inr v
               else Inl (ValueError ''Invalid lookback days value'')))
   \<and> crossover_stage form =
     (case form ''crossover_days'' of
        None \<Rightarrow> Inr 180
      | Some s \<Rightarrow>
          (case int_of_str s of
             Inl e \<Rightarrow> Inl (ValueError ''Invalid crossover days value'')
           | Inr v \<Rightarrow>
               if 30 \<le> v \<and> v \<le> 365 then Inr v
               else Inl (ValueError ''Invalid crossover days value'')))
   \<and> lookback_stage (form(''lookback_days'' \<mapsto> ''29''))
       = Inl (ValueError ''Invalid lookback days value'')
   \<and> lookback_stage (form(''lookback_days'' \<mapsto> ''30'')) = Inr 30
   \<and> lookback_stage (form(''lookback_days'' \<mapsto> ''1825'')) = Inr 1825
   \<and> lookback_stage (form(''lookback_days'' \<mapsto> ''1826''))
       = Inl (ValueError ''Invalid lookback days value'')
   \<and> lookback_stage (form(''lookback_days'' \<mapsto> ''abc''))
       = Inl (ValueError ''Invalid lookback days value'')
   \<and> crossover_stage (form(''crossover_days'' \<mapsto> ''29''))
       = Inl (ValueError ''Invalid crossover days value'')
   \<and> crossover_stage (form(''crossover_days'' \<mapsto> ''30'')) = Inr 30
   \<and> crossover_stage (form(''crossover_days'' \<mapsto> ''365'')) = Inr 365
   \<and> crossover_stage (form(''crossover_days'' \<mapsto> ''366''))
       = Inl (ValueError ''Invalid crossover days value'')"
proof -
  have "int_of_str ''29'' = Inr 29" "int_of_str ''30'' = Inr 30"
    "int_of_str ''365'' = Inr 365" "int_of_str ''366'' = Inr 366"
    "int_of_str ''1825'' = Inr 1825" "int_of_str ''1826'' = Inr 1826"
    "\<exists>m. int_of_str ''abc'' = Inl (ValueError m)"
    by (simp_all add: int_of_str_eval)
  then show ?thesis
    by (auto simp: lookback_stage_eq crossover_stage_eq)
qed

text \<open>
  C7. An end date that is supplied and not empty is parsed with the format
  \<open>%Y-%m-%d\<close>; the stage fails with \<open>Invalid date format. Please use YYYY-MM-DD format\<close>
  exactly when the parse fails, as it does on \<open>2024-13-01\<close>, and otherwise keeps the
  string. An absent or empty field gives the unset value, whatever the parser would
  say.
\<close>

theorem date_stage_format:
  "date_stage form =
     (case form ''end_date'' of
        None \<Rightarrow> Inr None
      | Some s \<Rightarrow>
          if s = [] then Inr None
          else (case strptime s of
                  Inl e \<Rightarrow> Inl (ValueError ''Invalid date format. Please use YYYY-MM-DD format'')
                | Inr d \<Rightarrow> Inr (Some s)))
   \<and> date_stage (form(''end_date'' \<mapsto> ''2024-13-01''))
       = Inl (ValueError ''Invalid date format. Please use YYYY-MM-DD format'')
   \<and> date_stage (form(''end_date'' \<mapsto> ''2024-12-31'')) = Inr (Some ''2024-12-31'')"
proof -
  have "\<exists>m. strptime ''2024-13-01'' = Inl (ValueError m)"
    by (simp add: strptime_eval)
  moreover have "strptime ''2024-12-31'' = Inr (2024, 12, 31)"
    by (simp add: strptime_eval)
  ultimately show ?thesis
    by (auto simp: date_stage_eq)
qed

text \<open>
  C9. A numeric field supplied as the empty string is an error: the lookback stage
  fails with \<open>Invalid lookback days value\<close> and the crossover stage with
  \<open>Invalid crossover days value\<close>, while the defaults 365 and 180 come only from an
  absent field. An end date supplied as the empty string is the same as an absent one:
  the value is unset, in the stage and in the whole handler. The two numeric failures
  reach the caller as the error page.
\<close>

theorem empty_field_handling:
  "lookback_stage (form(''lookback_days'' \<mapsto> []))
     = Inl (ValueError ''Invalid lookback days value'')
   \<and> crossover_stage (form(''crossover_days'' \<mapsto> []))
     = Inl (ValueError ''Invalid crossover days value'')
   \<and> lookback_stage (form(''lookback_days'' := None)) = Inr 365
   \<and> crossover_stage (form(''crossover_days'' := None)) = Inr 180
   \<and> date_stage (form(''end_date'' \<mapsto> [])) = Inr None
   \<and> date_stage (form(''end_date'' := None)) = Inr None
   \<and> analyze T D cca th (form(''end_date'' \<mapsto> []))
     = analyze T D cca th (form(''end_date'' := None))
   \<and> analyze [] D cca th [''ticker'' \<mapsto> ''AAPL'', ''lookback_days'' \<mapsto> []]
     = Inr \<lparr>body = error_html (error_msg ''AAPL'' (ValueError ''Invalid lookback days value'')),
            status = 500\<rparr>
   \<and> analyze [] D cca th [''ticker'' \<mapsto> ''AAPL'', ''crossover_days'' \<mapsto> []]
     = Inr \<lparr>body = error_html (error_msg ''AAPL'' (ValueError ''Invalid crossover days value'')),
            status = 500\<rparr>"
proof -
  obtain m where m: "int_of_str [] = Inl (ValueError m)"
    using int_of_str_empty by blast
  have stages: "lookback_stage (form(''lookback_days'' \<mapsto> []))
     = Inl (ValueError ''Invalid lookback days value'')"
    "crossover_stage (form(''crossover_days'' \<mapsto> []))
     = Inl (ValueError ''Invalid crossover days value'')"
    "lookback_stage (form(''lookback_days'' := None)) = Inr 365"
    "crossover_stage (form(''crossover_days'' := None)) = Inr 180"
    "date_stage (form(''end_date'' \<mapsto> [])) = Inr None"
    "date_stage (form(''end_date'' := None)) = Inr None"
    using m by (simp_all add: lookback_stage_eq crossover_stage_eq date_stage_eq)
  have d: "date_stage (form(''end_date'' \<mapsto> [])) = date_stage (form(''end_date'' := None))"
    and l: "lookback_stage (form(''end_date'' \<mapsto> []))
            = lookback_stage (form(''end_date'' := None))"
    and c: "crossover_stage (form(''end_date'' \<mapsto> []))
            = crossover_stage (form(''end_date'' := None))"
    by (simp_all add: lookback_stage_eq crossover_stage_eq date_stage_eq)
  have t: "analyze_try T D cca th (form(''end_date'' \<mapsto> []))
     = analyze_try T D cca th (form(''end_date'' := None))"
    unfolding analyze_try_def d l c by (rule refl)
  have f: "first_token (form(''end_date'' \<mapsto> [])) = first_token (form(''end_date'' := None))"
    by (simp add: first_token_def get_default_def)
  have same: "analyze T D cca th (form(''end_date'' \<mapsto> []))
     = analyze T D cca th (form(''end_date'' := None))"
    unfolding analyze_def t f by (rule refl)
  have tok: "str_split ''AAPL'' = [''AAPL'']"
    by (simp add: str_split.simps isspace_def)
  have up: "upper ''AAPL'' = ''AAPL''"
    by (simp add: upper_def upper_char_def)
  have res: "resolve [] D ''AAPL'' = Inr ''AAPL''"
    by (simp add: resolve_def split: option.splits)
  have page1: "analyze [] D cca th [''ticker'' \<mapsto> ''AAPL'', ''lookback_days'' \<mapsto> []]
     = Inr \<lparr>body = error_html (error_msg ''AAPL'' (ValueError ''Invalid lookback days value'')),
            status = 500\<rparr>"
    using m
    by (simp add: analyze_def first_token_def get_default_def tok up analyze_try_def res
        except_branch_def lookback_stage_eq date_stage_eq)
  have page2: "analyze [] D cca th [''ticker'' \<mapsto> ''AAPL'', ''crossover_days'' \<mapsto> []]
     = Inr \<lparr>body = error_html (error_msg ''AAPL'' (ValueError ''Invalid crossover days value'')),
            status = 500\<rparr>"
    using m
    by (simp add: analyze_def first_token_def get_default_def tok up analyze_try_def res
        except_branch_def lookback_stage_eq crossover_stage_eq date_stage_eq)
  show ?thesis
    using stages same page1 page2 by simp
qed

section \<open>Resolution of the ticker\<close>

lemma upper_take: "upper (take n s) = take n (upper s)"
  by (simp add: upper_def take_map)

lemma startswith_upper:
  assumes "startswith s x" and "upper s = s"
  shows "upper x = x"
proof -
  have "x = take (length x) s" using assms(1) by (simp add: startswith_def)
  then have "upper x = take (length x) (upper s)"
    using upper_take by metis
  then show ?thesis using assms by (simp add: startswith_def)
qed

lemma matching_tickers_filter:
  assumes "\<forall>t \<in> set TICKERS. \<exists>s. t ''symbol'' = Some s"
  shows "matching_tickers TICKERS x = Inr (filter (\<lambda>s. startswith s x) (symbols_of TICKERS))"
  using assms
proof (induction TICKERS)
  case Nil
  then show ?case by (simp add: symbols_of_def map_filter_simps)
next
  case (Cons t rest)
  then obtain s where s: "t ''symbol'' = Some s" by auto
  have "matching_tickers rest x = Inr (filter (\<lambda>s. startswith s x) (symbols_of rest))"
    using Cons by simp
  then show ?case
    using s by (simp add: getitem_def symbols_of_def map_filter_simps)
qed

lemma find_as_filter:
  "find P xs = (case filter P xs of [] \<Rightarrow> None | y # _ \<Rightarrow> Some y)"
  by (induction xs) auto

lemma symbols_of_upper:
  assumes "\<forall>t \<in> set TICKERS. \<exists>s. t ''symbol'' = Some s \<and> upper s = s"
    and "s \<in> set (symbols_of TICKERS)"
  shows "upper s = s"
  using assms by (auto simp: symbols_of_def map_filter_def)

lemma sample_symbols: "symbols_of sample_TICKERS = [''GOOGL'', ''GOOG'', ''AAPL'']"
  by (simp add: sample_TICKERS_def symbols_of_def map_filter_def)

lemma sample_dom: "dom sample_TICKER_DICT = {''GOOGL'', ''GOOG'', ''AAPL''}"
  by (auto simp add: sample_TICKER_DICT_def)

text \<open>
  C8. On a catalog whose entries all carry an uppercase symbol and whose dictionary
  keys are uppercase, resolution returns the input unchanged when its uppercased form
  is a key of the dictionary; otherwise the first symbol, in catalog order, that
  starts with the input; and the input itself when no symbol does. A symbol that only
  contains the input does not count.
\<close>

theorem resolve_spec:
  assumes "\<forall>t \<in> set TICKERS. \<exists>s. t ''symbol'' = Some s \<and> upper s = s"
      and "\<forall>k \<in> dom TICKER_DICT. upper k = k"
  shows "resolve TICKERS TICKER_DICT x =
           Inr (if upper x \<in> dom TICKER_DICT then x
                else case find (\<lambda>s. startswith s x) (symbols_of TICKERS) of
                       Some s \<Rightarrow> s
                     | None \<Rightarrow> x)"
proof (cases "TICKER_DICT x")
  case (Some n)
  then have "upper x = x" using assms(2) by auto
  then show ?thesis using Some by (auto simp: resolve_def)
next
  case None
  have wf: "\<forall>t \<in> set TICKERS. \<exists>s. t ''symbol'' = Some s" using assms(1) by blast
  have r: "resolve TICKERS TICKER_DICT x =
    Inr (case filter (\<lambda>s. startswith s x) (symbols_of TICKERS) of [] \<Rightarrow> x | m # _ \<Rightarrow> m)"
    using None by (simp add: resolve_def matching_tickers_filter [OF wf])
  show ?thesis
  proof (cases "upper x \<in> dom TICKER_DICT")
    case True
    then have ne: "upper x \<noteq> x" using None by auto
    have "filter (\<lambda>s. startswith s x) (symbols_of TICKERS) = []"
    proof (rule ccontr)
      assume "filter (\<lambda>s. startswith s x) (symbols_of TICKERS) \<noteq> []"
      then obtain s where "s \<in> set (symbols_of TICKERS)" "startswith s x"
        by (auto simp: filter_empty_conv)
      then have "upper x = x"
        using startswith_upper symbols_of_upper [OF assms(1)] by blast
      then show False using ne by simp
    qed
    then show ?thesis using r True by simp
  next
    case False
    then show ?thesis using r by (simp add: find_as_filter split: list.splits)
  qed
qed

theorem resolve_spec_witness:
  "resolve sample_TICKERS sample_TICKER_DICT ''GOOG'' = Inr ''GOOG''
   \<and> resolve sample_TICKERS sample_TICKER_DICT ''GOO'' = Inr ''GOOGL''
   \<and> resolve sample_TICKERS sample_TICKER_DICT ''OOG'' = Inr ''OOG''
   \<and> resolve sample_TICKERS sample_TICKER_DICT ''goog'' = Inr ''goog''"
proof -
  have h1: "\<forall>t \<in> set sample_TICKERS. \<exists>s. t ''symbol'' = Some s \<and> upper s = s"
    by (simp add: sample_TICKERS_def upper_def upper_char_def)
  have h2: "\<forall>k \<in> dom sample_TICKER_DICT. upper k = k"
    by (simp add: sample_TICKER_DICT_def upper_def upper_char_def)
  show ?thesis
    using resolve_spec [OF h1 h2, of "''GOOG''"] resolve_spec [OF h1 h2, of "''GOO''"]
      resolve_spec [OF h1 h2, of "''OOG''"] resolve_spec [OF h1 h2, of "''goog''"]
    by (simp add: sample_dom sample_symbols upper_def upper_char_def startswith_def)
qed

section \<open>The search\<close>

lemma startswith_prefix: "startswith s p \<longleftrightarrow> prefix p s"
  by (auto simp: startswith_def prefix_def) (metis append_eq_conv_conj)

lemma str_in_sublist: "str_in q s \<longleftrightarrow> sublist q s"
  by (induction s) (auto simp: startswith_prefix sublist_Cons_right)

lemma partial_cond_True:
  assumes "partial_cond q t = Inr True" and "partial_item t = Inr r"
  shows "is_partial q t \<and> r = to_result t"
  using assms
  by (auto simp: partial_cond_def partial_item_def getitem_def is_partial_def to_result_def
        str_in_sublist split: option.splits if_splits)

lemma partial_cond_False:
  assumes "partial_cond q t = Inr False"
  shows "\<not> is_partial q t"
  using assms
  by (auto simp: partial_cond_def getitem_def is_partial_def str_in_sublist
        split: option.splits if_splits)

lemma partial_matches_filter:
  "partial_matches TICKERS q = Inr pm \<Longrightarrow> pm = map to_result (filter (is_partial q) TICKERS)"
proof (induction TICKERS arbitrary: pm)
  case Nil
  then show ?case by simp
next
  case (Cons t rest)
  show ?case
  proof (cases "partial_cond q t")
    case (Inl e)
    then show ?thesis using Cons.prems by simp
  next
    case (Inr b)
    show ?thesis
    proof (cases b)
      case True
      then obtain r rs where r: "partial_item t = Inr r"
        and rs: "partial_matches rest q = Inr rs" and pm: "pm = r # rs"
        using Cons.prems Inr by (auto split: sum.splits)
      have "is_partial q t \<and> r = to_result t"
        using partial_cond_True [of q t r] Inr True r by simp
      then show ?thesis using Cons.IH [OF rs] pm by simp
    next
      case False
      then have rs: "partial_matches rest q = Inr pm"
        using Cons.prems Inr by simp
      have "\<not> is_partial q t" using partial_cond_False [of q t] Inr False by simp
      then show ?thesis using Cons.IH [OF rs] by simp
    qed
  qed
qed

lemma rank_le_iff: "rank q a \<le> rank q b \<longleftrightarrow> ranks_before q a b"
  by (auto simp: rank_def ranks_before_def less_eq_prod_def less_prod_def)

lemma rank_eq_iff: "rank q a = rank q b \<longleftrightarrow> symbol a = symbol b"
  by (auto simp: rank_def)

lemma exact_match_length: "length (exact_match D q) \<le> 1"
  by (simp add: exact_match_def split: option.splits)

lemma exact_match_elem:
  "r \<in> set (exact_match D q) \<Longrightarrow> symbol r = q \<and> D q = Some (name r)"
  by (auto simp: exact_match_def split: option.splits)

lemma search_body_Inr:
  assumes "partial_matches T q = Inr pm"
  shows "search_body T D q = Inr (sort_key (rank q) (take 5 (exact_match D q @ pm)))"
proof -
  have l: "length (exact_match D q) \<le> 1" by (rule exact_match_length)
  then have "take 5 (exact_match D q @ pm)
           = exact_match D q @ take (5 - length (exact_match D q)) pm"
    by simp
  moreover have "length (sort_key (rank q) (take 5 (exact_match D q @ pm))) \<le> 5"
    by simp
  ultimately show ?thesis
    using assms l by (simp add: search_body_def Let_def)
qed

lemma search_body_Inl:
  assumes "partial_matches T q = Inl e"
  shows "search_body T D q = Inl e"
proof -
  have "length (exact_match D q) \<le> 1" by (rule exact_match_length)
  then show ?thesis using assms by (simp add: search_body_def Let_def)
qed

lemma search_ticker_nonempty:
  assumes "args ''query'' = Some raw" and "raw \<noteq> []"
  shows "search_ticker T D args =
           Inr (case search_body T D (upper raw) of Inl e \<Rightarrow> [] | Inr rs \<Rightarrow> rs)"
  using assms
  by (simp add: search_ticker_def get_default_def upper_def Let_def split: sum.splits)

lemma search_ticker_cases:
  "search_ticker T D args = Inr []
   \<or> (\<exists>pm. partial_matches T (upper (get_default args ''query'' [])) = Inr pm
          \<and> search_ticker T D args
              = Inr (sort_key (rank (upper (get_default args ''query'' [])))
                      (take 5 (exact_match D (upper (get_default args ''query'' [])) @ pm))))"
proof (cases "partial_matches T (upper (get_default args ''query'' []))")
  case (Inl e)
  then show ?thesis
    using search_body_Inl [OF Inl] by (simp add: search_ticker_def Let_def)
next
  case (Inr pm)
  then show ?thesis
    using search_body_Inr [OF Inr] by (auto simp add: search_ticker_def Let_def)
qed

lemma sample_search_goog:
  "search_ticker sample_TICKERS sample_TICKER_DICT [''query'' \<mapsto> ''goog'']
     = Inr [\<lparr>symbol = ''GOOG'', name = ''Alphabet Inc. Class C'', source = ''predefined''\<rparr>,
            \<lparr>symbol = ''GOOGL'', name = ''Alphabet Inc. Class A'', source = ''predefined''\<rparr>]"
  by (simp add: search_ticker_def get_default_def upper_def upper_char_def search_body_def
      exact_match_def sample_TICKERS_def sample_TICKER_DICT_def partial_cond_def partial_item_def
      getitem_def startswith_def rank_def)

text \<open>
  C3. For a query that is not empty, the search returns at most five results. Each is
  the exact match (its symbol is the uppercased query, its name the dictionary's) or
  comes from a catalog entry, other than the exact one, whose uppercased symbol or
  name contains the uppercased query. The partial matches are the catalog entries
  that qualify, in catalog order, and the results are a rearrangement of the first
  five of the exact match followed by them.
\<close>

theorem search_results_match:
  assumes "args ''query'' = Some raw" and "raw \<noteq> []"
  shows "\<exists>rs. search_ticker T D args = Inr rs
           \<and> length rs \<le> 5
           \<and> (\<forall>r \<in> set rs.
                  (symbol r = upper raw \<and> D (upper raw) = Some (name r))
                \<or> (\<exists>t \<in> set T. t ''symbol'' = Some (symbol r) \<and> t ''name'' = Some (name r)
                      \<and> symbol r \<noteq> upper raw
                      \<and> (sublist (upper raw) (upper (symbol r))
                         \<or> sublist (upper raw) (upper (name r)))))
           \<and> (\<forall>pm. partial_matches T (upper raw) = Inr pm \<longrightarrow>
                  pm = map to_result (filter (is_partial (upper raw)) T)
                  \<and> mset rs = mset (take 5 (exact_match D (upper raw) @ pm)))"
proof (cases "partial_matches T (upper raw)")
  case (Inl e)
  have "search_ticker T D args = Inr []"
    using search_ticker_nonempty [of args raw T D] assms search_body_Inl [OF Inl] by simp
  then show ?thesis using Inl by simp
next
  case (Inr pm)
  let ?q = "upper raw"
  let ?rs = "sort_key (rank ?q) (take 5 (exact_match D ?q @ pm))"
  have res: "search_ticker T D args = Inr ?rs"
    using search_ticker_nonempty [of args raw T D] assms search_body_Inr [OF Inr] by simp
  have pm: "pm = map to_result (filter (is_partial ?q) T)"
    using partial_matches_filter [OF Inr] .
  have len: "length ?rs \<le> 5" by simp
  have elems: "(symbol r = ?q \<and> D ?q = Some (name r))
        \<or> (\<exists>t \<in> set T. t ''symbol'' = Some (symbol r) \<and> t ''name'' = Some (name r)
              \<and> symbol r \<noteq> ?q
              \<and> (sublist ?q (upper (symbol r)) \<or> sublist ?q (upper (name r))))"
    if "r \<in> set ?rs" for r
  proof -
    have "r \<in> set (exact_match D ?q) \<or> r \<in> set pm"
      using that by (auto dest: in_set_takeD)
    then show ?thesis
    proof
      assume "r \<in> set (exact_match D ?q)"
      then show ?thesis using exact_match_elem by blast
    next
      assume "r \<in> set pm"
      then obtain t where t: "t \<in> set T" "is_partial ?q t" "r = to_result t"
        using pm by auto
      then obtain s n where sn: "t ''symbol'' = Some s" "t ''name'' = Some n"
        "(sublist ?q (upper s) \<or> sublist ?q (upper n)) \<and> s \<noteq> ?q"
        by (auto simp: is_partial_def split: option.splits)
      then have "symbol r = s" "name r = n" using t by (simp_all add: to_result_def)
      then show ?thesis using t(1) sn by blast
    qed
  qed
  have ms: "mset ?rs = mset (take 5 (exact_match D ?q @ pm))" by simp
  show ?thesis
  proof (intro exI [of _ ?rs] conjI)
    show "search_ticker T D args = Inr ?rs" by (rule res)
    show "length ?rs \<le> 5" by (rule len)
    show "\<forall>r \<in> set ?rs.
            (symbol r = ?q \<and> D ?q = Some (name r))
          \<or> (\<exists>t \<in> set T. t ''symbol'' = Some (symbol r) \<and> t ''name'' = Some (name r)
                \<and> symbol r \<noteq> ?q
                \<and> (sublist ?q (upper (symbol r)) \<or> sublist ?q (upper (name r))))"
      using elems by blast
    show "\<forall>pm. partial_matches T ?q = Inr pm \<longrightarrow>
            pm = map to_result (filter (is_partial ?q) T)
            \<and> mset ?rs = mset (take 5 (exact_match D ?q @ pm))"
      using Inr pm ms by simp
  qed
qed

theorem search_results_match_witness:
  "\<exists>rs. rs = [\<lparr>symbol = ''GOOG'', name = ''Alphabet Inc. Class C'', source = ''predefined''\<rparr>,
               \<lparr>symbol = ''GOOGL'', name = ''Alphabet Inc. Class A'', source = ''predefined''\<rparr>]
           \<and> search_ticker sample_TICKERS sample_TICKER_DICT [''query'' \<mapsto> ''goog''] = Inr rs
           \<and> length rs \<le> 5
           \<and> (\<forall>r \<in> set rs.
                  (symbol r = upper ''goog'' \<and> sample_TICKER_DICT (upper ''goog'') = Some (name r))
                \<or> (\<exists>t \<in> set sample_TICKERS.
                      t ''symbol'' = Some (symbol r) \<and> t ''name'' = Some (name r)
                      \<and> symbol r \<noteq> upper ''goog''
                      \<and> (sublist (upper ''goog'') (upper (symbol r))
                         \<or> sublist (upper ''goog'') (upper (name r)))))
           \<and> (\<forall>pm. partial_matches sample_TICKERS (upper ''goog'') = Inr pm \<longrightarrow>
                  pm = map to_result (filter (is_partial (upper ''goog'')) sample_TICKERS)
                  \<and> mset rs = mset (take 5 (exact_match sample_TICKER_DICT (upper ''goog'') @ pm)))"
proof -
  have h1: "[''query'' \<mapsto> ''goog''] ''query'' = Some ''goog''" by simp
  have h2: "''goog'' \<noteq> []" by simp
  obtain rs where rs:
    "search_ticker sample_TICKERS sample_TICKER_DICT [''query'' \<mapsto> ''goog''] = Inr rs
     \<and> length rs \<le> 5
     \<and> (\<forall>r \<in> set rs.
            (symbol r = upper ''goog'' \<and> sample_TICKER_DICT (upper ''goog'') = Some (name r))
          \<or> (\<exists>t \<in> set sample_TICKERS.
                t ''symbol'' = Some (symbol r) \<and> t ''name'' = Some (name r)
                \<and> symbol r \<noteq> upper ''goog''
                \<and> (sublist (upper ''goog'') (upper (symbol r))
                   \<or> sublist (upper ''goog'') (upper (name r)))))
     \<and> (\<forall>pm. partial_matches sample_TICKERS (upper ''goog'') = Inr pm \<longrightarrow>
            pm = map to_result (filter (is_partial (upper ''goog'')) sample_TICKERS)
            \<and> mset rs = mset (take 5 (exact_match sample_TICKER_DICT (upper ''goog'') @ pm)))"
    using search_results_match
          [of "[''query'' \<mapsto> ''goog'']" "''goog''" sample_TICKERS sample_TICKER_DICT,
           OF h1 h2]
    by blast
  then have "Inr rs = (Inr [\<lparr>symbol = ''GOOG'', name = ''Alphabet Inc. Class C'',
                            source = ''predefined''\<rparr>,
                         \<lparr>symbol = ''GOOGL'', name = ''Alphabet Inc. Class A'',
                            source = ''predefined''\<rparr>] :: exn + result list)"
    using sample_search_goog by simp
  then have "rs = [\<lparr>symbol = ''GOOG'', name = ''Alphabet Inc. Class C'', source = ''predefined''\<rparr>,
               \<lparr>symbol = ''GOOGL'', name = ''Alphabet Inc. Class A'', source = ''predefined''\<rparr>]"
    by simp
  with rs show ?thesis by (intro exI [of _ rs]) simp
qed

text \<open>
  C4. For every query the results are sorted by the key of lines 60 to 64, which is
  the order \<open>ranks_before\<close>: the exact match first, then shorter symbols, then the
  lexicographic order of the symbols. The order is total, and two results tie only
  when their symbols are equal.
\<close>

theorem search_sorted:
  "(\<exists>rs. search_ticker T D args = Inr rs
         \<and> sorted (map (rank (upper (get_default args ''query'' []))) rs)
         \<and> sorted_wrt (ranks_before (upper (get_default args ''query'' []))) rs)
   \<and> (rank q a \<le> rank q b) = ranks_before q a b
   \<and> (ranks_before q a b \<or> ranks_before q b a)
   \<and> (ranks_before q a b \<and> ranks_before q b a) = (symbol a = symbol b)"
proof -
  let ?q = "upper (get_default args ''query'' [])"
  have srt: "sorted (map (rank ?q) rs) \<Longrightarrow> sorted_wrt (ranks_before ?q) rs" for rs
    by (simp add: sorted_map rank_le_iff)
  have "\<exists>rs. search_ticker T D args = Inr rs \<and> sorted (map (rank ?q) rs)"
    using search_ticker_cases [of T D args] by auto
  then have 1: "\<exists>rs. search_ticker T D args = Inr rs
         \<and> sorted (map (rank ?q) rs) \<and> sorted_wrt (ranks_before ?q) rs"
    using srt by blast
  have 2: "(rank q a \<le> rank q b) = ranks_before q a b"
    by (rule rank_le_iff)
  have 3: "ranks_before q a b \<or> ranks_before q b a"
    using linear [of "rank q a" "rank q b"] by (simp add: rank_le_iff)
  have 4: "(ranks_before q a b \<and> ranks_before q b a) = (symbol a = symbol b)"
    using eq_iff [of "rank q a" "rank q b"] by (simp add: rank_le_iff rank_eq_iff)
  show ?thesis using 1 2 3 4 by blast
qed

text \<open>
  C5. The search never raises: it always returns a list. The list is empty for an
  absent or empty query, and whenever the body of the \<open>try\<close> raises, as it does on
  a catalog entry without a name.
\<close>

theorem search_never_raises:
  "(\<exists>rs. search_ticker T D args = Inr rs)
   \<and> search_ticker T D args
       = Inr (if upper (get_default args ''query'' []) = [] then []
              else case search_body T D (upper (get_default args ''query'' [])) of
                     Inl e \<Rightarrow> []
                   | Inr rs \<Rightarrow> rs)
   \<and> search_ticker T D (args(''query'' := None)) = Inr []
   \<and> search_ticker T D (args(''query'' \<mapsto> [])) = Inr []
   \<and> search_body [[''symbol'' \<mapsto> ''AAPL'']] D ''X'' = Inl (KeyError ''name'')
   \<and> search_ticker [[''symbol'' \<mapsto> ''AAPL'']] D [''query'' \<mapsto> ''x''] = Inr []"
proof -
  have 1: "search_ticker T D args
       = Inr (if upper (get_default args ''query'' []) = [] then []
              else case search_body T D (upper (get_default args ''query'' [])) of
                     Inl e \<Rightarrow> []
                   | Inr rs \<Rightarrow> rs)"
    by (simp add: search_ticker_def Let_def split: sum.splits)
  have 2: "search_ticker T D (args(''query'' := None)) = Inr []"
    "search_ticker T D (args(''query'' \<mapsto> [])) = Inr []"
    by (simp_all add: search_ticker_def get_default_def upper_def)
  have 3: "search_body [[''symbol'' \<mapsto> ''AAPL'']] D ''X'' = Inl (KeyError ''name'')"
    by (simp add: search_body_def exact_match_def partial_cond_def getitem_def
        upper_def upper_char_def startswith_def Let_def split: option.splits)
  have 4: "search_ticker [[''symbol'' \<mapsto> ''AAPL'']] D [''query'' \<mapsto> ''x''] = Inr []"
    using 3 by (simp add: search_ticker_def get_default_def upper_def upper_char_def)
  show ?thesis using 1 2 3 4 by simp
qed

end
